theory Spec2Isabelle
  imports Main
begin

section \<open>PropertyData adapter: the dispatch core of \<open>src/index.ts\<close>\<close>

text \<open>
  The server maps a tool name and an argument object to one HTTP GET against the
  PropertyData API and wraps the outcome in a content envelope. The embedding follows
  \<open>src/index.ts\<close>: \<open>propertydataCall\<close>, the \<open>tools\<close> array, the \<open>toolHandlers\<close>
  table and the handler registered for \<open>CallToolRequestSchema\<close>.

  What the source takes from its platform is modelled from the ECMAScript and URL
  standards: \<open>String(value)\<close>, \<open>JSON.stringify(value, null, 2)\<close>, the serializer of
  \<open>URLSearchParams\<close>, property lookup through \<open>Object.prototype\<close>, and the rendering
  of an \<open>Error\<close> in a template literal. The network (\<open>fetch\<close>), the credential and
  the rendering of numbers are parameters, gathered in a record \<open>world\<close>.

  Strings are byte strings: a text is its UTF-8 encoding.
\<close>

subsection \<open>Values\<close>

text \<open>
  The values that \<open>JSON.parse\<close> produces. The type \<open>'n\<close> of numbers is a parameter (the
  platform's are IEEE doubles). An object is the list of its own properties in
  enumeration order, with distinct keys. A property read that finds nothing gives
  \<open>undefined\<close>, which is \<open>None\<close> of type \<open>'n json option\<close>.
\<close>

datatype 'n json =
    JNull
  | JBool bool
  | JNum 'n
  | JStr string
  | JArr "'n json list"
  | JObj "(string \<times> 'n json) list"

text \<open>An \<open>Error\<close> object: its \<open>name\<close> and its \<open>message\<close>.\<close>

datatype jsexn = JsError (exn_name: string) (exn_message: string)

text \<open>
  \<open>Error.prototype.toString\<close>, which a template literal \<open>`${error}`\<close> applies to an
  \<open>Error\<close>.
\<close>

definition exn_toString :: "jsexn \<Rightarrow> string" where
  "exn_toString e =
     (if exn_name e = [] then exn_message e
      else if exn_message e = [] then exn_name e
      else exn_name e @ '': '' @ exn_message e)"

text \<open>
  The \<open>TypeError\<close>s the engine raises on the paths below. The standard fixes the kind of
  the error; the message texts are those of V8, the engine of Node.js.
\<close>

definition TypeError :: "string \<Rightarrow> jsexn" where
  "TypeError msg = JsError ''TypeError'' msg"

definition not_primitive :: jsexn where
  "not_primitive = TypeError ''Cannot convert object to primitive value''"

definition not_object :: jsexn where
  "not_object = TypeError ''Cannot convert undefined or null to object''"

subsection \<open>Digits\<close>

definition hex_digit :: "bool \<Rightarrow> nat \<Rightarrow> char" where
  "hex_digit upper d =
     (if upper then ''0123456789ABCDEF'' else ''0123456789abcdef'') ! (d mod 16)"

text \<open>The decimal text of a natural number, as \<open>`${response.status}`\<close> gives it.\<close>

fun decimal :: "nat \<Rightarrow> string" where
  "decimal n =
     (if n < 10 then [hex_digit True n]
      else decimal (n div 10) @ [hex_digit True (n mod 10)])"

declare decimal.simps [simp del]

subsection \<open>\<open>String(value)\<close>\<close>

text \<open>
  \<open>String\<close> on a parsed JSON value. A string is itself; an array is the texts of its
  elements joined by a comma, \<open>null\<close> elements giving the empty text
  (\<open>Array.prototype.join\<close>). A plain object is converted by \<open>OrdinaryToPrimitive\<close>: it
  calls \<open>toString\<close>, which an object inherits from \<open>Object.prototype\<close> and which then
  answers \<open>[object Object]\<close>; where the object has an own property \<open>toString\<close> (it
  holds a JSON value, so it is not callable) only the inherited \<open>valueOf\<close> remains,
  which returns the object itself, and the conversion throws a \<open>TypeError\<close>.
\<close>

fun String_js :: "('n \<Rightarrow> string) \<Rightarrow> 'n json \<Rightarrow> jsexn + string"
  and join_js :: "('n \<Rightarrow> string) \<Rightarrow> 'n json list \<Rightarrow> jsexn + string"
where
  "String_js ns JNull = Inr ''null''"
| "String_js ns (JBool b) = Inr (if b then ''true'' else ''false'')"
| "String_js ns (JNum n) = Inr (ns n)"
| "String_js ns (JStr s) = Inr s"
| "String_js ns (JArr xs) = join_js ns xs"
| "String_js ns (JObj kvs) =
     (if ''toString'' \<in> set (map fst kvs) then Inl not_primitive
      else Inr ''[object Object]'')"
| "join_js ns [] = Inr []"
| "join_js ns (x # xs) =
     (case (case x of JNull \<Rightarrow> Inr [] | _ \<Rightarrow> String_js ns x) of
        Inl e \<Rightarrow> Inl e
      | Inr s \<Rightarrow>
          (if xs = [] then Inr s
           else (case join_js ns xs of
                   Inl e \<Rightarrow> Inl e
                 | Inr r \<Rightarrow> Inr (s @ '','' @ r))))"

subsection \<open>\<open>JSON.stringify(value, null, 2)\<close>\<close>

text \<open>
  \<open>QuoteJSONString\<close>: the two-character escapes, \<open>\u00xx\<close> for the other control
  characters, every other character as it is.
\<close>

definition quote_char :: "char \<Rightarrow> string" where
  "quote_char c =
     (if c = CHR 0x08 then [CHR 0x5C, CHR ''b'']
      else if c = CHR 0x09 then [CHR 0x5C, CHR ''t'']
      else if c = CHR 0x0A then [CHR 0x5C, CHR ''n'']
      else if c = CHR 0x0C then [CHR 0x5C, CHR ''f'']
      else if c = CHR 0x0D then [CHR 0x5C, CHR ''r'']
      else if c = CHR 0x22 then [CHR 0x5C, CHR 0x22]
      else if c = CHR 0x5C then [CHR 0x5C, CHR 0x5C]
      else if (of_char c :: nat) < 32 then
        [CHR 0x5C, CHR ''u'', CHR ''0'', CHR ''0'',
         hex_digit False (of_char c div 16), hex_digit False (of_char c mod 16)]
      else [c])"

definition QuoteJSONString :: "string \<Rightarrow> string" where
  "QuoteJSONString s = [CHR 0x22] @ concat (map quote_char s) @ [CHR 0x22]"

text \<open>
  \<open>SerializeJSONProperty\<close> with the gap of two spaces: \<open>indent\<close> is the indentation of
  the enclosing level. An empty array or object has no line break. A number is
  finite (JSON text denotes no other) and is rendered as \<open>String\<close> renders it.
\<close>

fun SerializeJSON :: "('n \<Rightarrow> string) \<Rightarrow> string \<Rightarrow> 'n json \<Rightarrow> string"
  and SerializeJSONArray :: "('n \<Rightarrow> string) \<Rightarrow> string \<Rightarrow> 'n json list \<Rightarrow> string"
  and SerializeJSONObject :: "('n \<Rightarrow> string) \<Rightarrow> string \<Rightarrow> (string \<times> 'n json) list \<Rightarrow> string"
where
  "SerializeJSON ns indent JNull = ''null''"
| "SerializeJSON ns indent (JBool b) = (if b then ''true'' else ''false'')"
| "SerializeJSON ns indent (JNum n) = ns n"
| "SerializeJSON ns indent (JStr s) = QuoteJSONString s"
| "SerializeJSON ns indent (JArr xs) =
     (if xs = [] then ''[]''
      else ''['' @ [CHR 0x0A] @ (indent @ ''  '') @
           SerializeJSONArray ns (indent @ ''  '') xs @ [CHR 0x0A] @ indent @ '']'')"
| "SerializeJSON ns indent (JObj kvs) =
     (if kvs = [] then ''{}''
      else ''{'' @ [CHR 0x0A] @ (indent @ ''  '') @
           SerializeJSONObject ns (indent @ ''  '') kvs @ [CHR 0x0A] @ indent @ ''}'')"
| "SerializeJSONArray ns indent [] = []"
| "SerializeJSONArray ns indent (x # xs) =
     SerializeJSON ns indent x @
     (if xs = [] then []
      else '','' @ [CHR 0x0A] @ indent @ SerializeJSONArray ns indent xs)"
| "SerializeJSONObject ns indent [] = []"
| "SerializeJSONObject ns indent (kv # kvs) =
     QuoteJSONString (fst kv) @ '': '' @ SerializeJSON ns indent (snd kv) @
     (if kvs = [] then []
      else '','' @ [CHR 0x0A] @ indent @ SerializeJSONObject ns indent kvs)"

definition JSON_stringify :: "('n \<Rightarrow> string) \<Rightarrow> 'n json \<Rightarrow> string" where
  "JSON_stringify ns v = SerializeJSON ns [] v"

subsection \<open>\<open>URLSearchParams\<close>\<close>

text \<open>
  The \<open>application/x-www-form-urlencoded\<close> serializer of the URL standard, which gives
  the query of a URL whose \<open>searchParams\<close> were appended to. A byte is kept when it is
  an ASCII letter or digit or one of \<open>* - . _\<close>; a space becomes \<open>+\<close>; every other
  byte becomes \<open>%\<close> and two upper-case hexadecimal digits.
\<close>

definition urlencoded_keeps :: "char \<Rightarrow> bool" where
  "urlencoded_keeps c =
     (let n = (of_char c :: nat) in
        (48 \<le> n \<and> n \<le> 57) \<or> (65 \<le> n \<and> n \<le> 90) \<or> (97 \<le> n \<and> n \<le> 122) \<or>
        n = 42 \<or> n = 45 \<or> n = 46 \<or> n = 95)"

definition urlencoded_byte :: "char \<Rightarrow> string" where
  "urlencoded_byte c =
     (if c = CHR '' '' then ''+''
      else if urlencoded_keeps c then [c]
      else [CHR ''%'', hex_digit True (of_char c div 16), hex_digit True (of_char c mod 16)])"

definition urlencoded :: "string \<Rightarrow> string" where
  "urlencoded s = concat (map urlencoded_byte s)"

fun searchParams_toString :: "(string \<times> string) list \<Rightarrow> string" where
  "searchParams_toString [] = []"
| "searchParams_toString (p # ps) =
     urlencoded (fst p) @ ''='' @ urlencoded (snd p) @
     (if ps = [] then [] else ''&'' @ searchParams_toString ps)"

subsection \<open>The world outside\<close>

text \<open>
  A response as the source reads it: \<open>response.status\<close>, and what \<open>response.text()\<close>
  and \<open>response.json()\<close> settle to (\<open>Inl\<close> is a rejection). The source reads the body
  once, by one of the two.
\<close>

record 'n response =
  status :: nat
  body_text :: "jsexn + string"
  body_json :: "jsexn + 'n json"

text \<open>\<open>response.ok\<close>: the status is in the range 200 to 299.\<close>

definition ok :: "'n response \<Rightarrow> bool" where
  "ok r = (200 \<le> status r \<and> status r < 300)"

text \<open>What the promise of \<open>fetch(url)\<close> settles to.\<close>

datatype 'n settled = Rejected jsexn | Resolved "'n response"

text \<open>
  The credential \<open>API_KEY\<close> (the process exits at startup when it is empty), the
  platform's rendering of a number (\<open>Number::toString\<close>), and the network: the outcome
  of a GET of a URL.
\<close>

record 'n world =
  API_KEY :: string
  Number_toString :: "'n \<Rightarrow> string"
  fetch :: "string \<Rightarrow> 'n settled"

definition BASE_URL :: string where
  "BASE_URL = ''https://api.propertydata.co.uk''"

subsection \<open>\<open>propertydataCall\<close>\<close>

text \<open>
  The loop over \<open>Object.entries(params)\<close>: an entry whose value is neither \<open>null\<close> nor
  \<open>undefined\<close> is appended as \<open>(key, String(value))\<close>. \<open>String\<close> can throw, and the
  loop stands before the \<open>try\<close> block.
\<close>

fun append_params ::
  "('n \<Rightarrow> string) \<Rightarrow> (string \<times> 'n json option) list \<Rightarrow> jsexn + (string \<times> string) list"
where
  "append_params ns [] = Inr []"
| "append_params ns (entry # rest) =
     (case snd entry of
        None \<Rightarrow> append_params ns rest
      | Some JNull \<Rightarrow> append_params ns rest
      | Some v \<Rightarrow>
          (case String_js ns v of
             Inl e \<Rightarrow> Inl e
           | Inr s \<Rightarrow>
               (case append_params ns rest of
                  Inl e \<Rightarrow> Inl e
                | Inr ps \<Rightarrow> Inr ((fst entry, s) # ps))))"

text \<open>The object \<open>{ error: msg }\<close>.\<close>

definition error_object :: "string \<Rightarrow> 'n json" where
  "error_object msg = JObj [(''error'', JStr msg)]"

text \<open>
  The URL after the appends: the endpoints are plain paths, which the URL parser
  leaves as they are, and the query is the serialized parameter list, \<open>key\<close> first.
\<close>

definition request_url :: "'n world \<Rightarrow> string \<Rightarrow> (string \<times> string) list \<Rightarrow> string" where
  "request_url w endpoint ps =
     BASE_URL @ endpoint @ ''?'' @ searchParams_toString ((''key'', API_KEY w) # ps)"

text \<open>
  The \<open>try\<close> block: everything thrown inside it, by \<open>fetch\<close>, by \<open>response.text()\<close> or
  by \<open>response.json()\<close>, is caught by the one \<open>catch\<close>.
\<close>

definition fetch_result :: "'n settled \<Rightarrow> 'n json" where
  "fetch_result outcome =
     (case outcome of
        Rejected error \<Rightarrow> error_object (''Request failed: '' @ exn_toString error)
      | Resolved response \<Rightarrow>
          (if \<not> ok response then
             (case body_text response of
                Inl error \<Rightarrow> error_object (''Request failed: '' @ exn_toString error)
              | Inr errorText \<Rightarrow>
                  error_object
                    (''API Error '' @ decimal (status response) @ '': '' @ errorText))
           else
             (case body_json response of
                Inl error \<Rightarrow> error_object (''Request failed: '' @ exn_toString error)
              | Inr v \<Rightarrow> v)))"

text \<open>
  The result is what the promise settles to (\<open>Inl\<close>: rejected), with the URLs that
  \<open>fetch\<close> was called on.
\<close>

definition propertydataCall ::
  "'n world \<Rightarrow> string \<Rightarrow> (string \<times> 'n json option) list \<Rightarrow> (jsexn + 'n json) \<times> string list"
where
  "propertydataCall w endpoint params =
     (case append_params (Number_toString w) params of
        Inl e \<Rightarrow> (Inl e, [])
      | Inr ps \<Rightarrow>
          (let url = request_url w endpoint ps
           in (Inr (fetch_result (fetch w url)), [url])))"

subsection \<open>The catalog\<close>

text \<open>
  A descriptor of the \<open>tools\<close> array: its \<open>name\<close>, the keys of
  \<open>inputSchema.properties\<close> with their \<open>type\<close>, and \<open>inputSchema.required\<close> (the last
  two descriptors have none). The descriptions are prose and are left out.
\<close>

record ToolDescriptor =
  tool_name :: string
  properties :: "(string \<times> string) list"
  required :: "string list"

definition tools :: "ToolDescriptor list" where
  "tools = [
    \<lparr>tool_name = ''address_match_uprn'',
     properties = [(''address'', ''string'')],
     required = [''address'']\<rparr>,
    \<lparr>tool_name = ''get_uprn_data'',
     properties = [(''uprn'', ''string'')],
     required = [''uprn'']\<rparr>,
    \<lparr>tool_name = ''get_uprns'',
     properties = [(''postcode'', ''string'')],
     required = [''postcode'']\<rparr>,
    \<lparr>tool_name = ''get_uprn_title'',
     properties = [(''uprn'', ''string'')],
     required = [''uprn'']\<rparr>,
    \<lparr>tool_name = ''get_title_data'',
     properties = [(''postcode'', ''string'')],
     required = [''postcode'']\<rparr>,
    \<lparr>tool_name = ''get_title_use_class'',
     properties = [(''postcode'', ''string'')],
     required = [''postcode'']\<rparr>,
    \<lparr>tool_name = ''get_estate_agents'',
     properties = [(''postcode'', ''string'')],
     required = [''postcode'']\<rparr>,
    \<lparr>tool_name = ''analyse_buildings'',
     properties = [(''postcode'', ''string'')],
     required = [''postcode'']\<rparr>,
    \<lparr>tool_name = ''get_area_type'',
     properties = [(''postcode'', ''string'')],
     required = [''postcode'']\<rparr>,
    \<lparr>tool_name = ''get_postcode_key_stats'',
     properties = [(''postcode'', ''string'')],
     required = [''postcode'']\<rparr>,
    \<lparr>tool_name = ''get_demographics'',
     properties = [(''postcode'', ''string'')],
     required = [''postcode'']\<rparr>,
    \<lparr>tool_name = ''get_population_data'',
     properties = [(''postcode'', ''string'')],
     required = [''postcode'']\<rparr>,
    \<lparr>tool_name = ''get_household_income'',
     properties = [(''postcode'', ''string'')],
     required = [''postcode'']\<rparr>,
    \<lparr>tool_name = ''get_politics_data'',
     properties = [(''postcode'', ''string'')],
     required = [''postcode'']\<rparr>,
    \<lparr>tool_name = ''get_prices'',
     properties = [(''postcode'', ''string'')],
     required = [''postcode'']\<rparr>,
    \<lparr>tool_name = ''get_prices_per_sqf'',
     properties = [(''postcode'', ''string'')],
     required = [''postcode'']\<rparr>,
    \<lparr>tool_name = ''get_sold_prices'',
     properties = [(''postcode'', ''string'')],
     required = [''postcode'']\<rparr>,
    \<lparr>tool_name = ''get_sold_prices_per_sqf'',
     properties = [(''postcode'', ''string'')],
     required = [''postcode'']\<rparr>,
    \<lparr>tool_name = ''get_valuation_sale'',
     properties = [(''postcode'', ''string''), (''address'', ''string'')],
     required = [''postcode'']\<rparr>,
    \<lparr>tool_name = ''get_valuation_rent'',
     properties = [(''postcode'', ''string''), (''address'', ''string'')],
     required = [''postcode'']\<rparr>,
    \<lparr>tool_name = ''get_valuation_hmo'',
     properties = [(''postcode'', ''string''), (''address'', ''string'')],
     required = [''postcode'']\<rparr>,
    \<lparr>tool_name = ''get_valuation_historical'',
     properties = [(''postcode'', ''string''), (''address'', ''string'')],
     required = [''postcode'']\<rparr>,
    \<lparr>tool_name = ''get_growth_data'',
     properties = [(''postcode'', ''string'')],
     required = [''postcode'']\<rparr>,
    \<lparr>tool_name = ''get_growth_psf'',
     properties = [(''postcode'', ''string'')],
     required = [''postcode'']\<rparr>,
    \<lparr>tool_name = ''get_rental_demand'',
     properties = [(''postcode'', ''string'')],
     required = [''postcode'']\<rparr>,
    \<lparr>tool_name = ''get_rental_demand_rent'',
     properties = [(''postcode'', ''string'')],
     required = [''postcode'']\<rparr>,
    \<lparr>tool_name = ''get_rents'',
     properties = [(''postcode'', ''string'')],
     required = [''postcode'']\<rparr>,
    \<lparr>tool_name = ''get_rents_hmo'',
     properties = [(''postcode'', ''string'')],
     required = [''postcode'']\<rparr>,
    \<lparr>tool_name = ''get_yields'',
     properties = [(''postcode'', ''string'')],
     required = [''postcode'']\<rparr>,
    \<lparr>tool_name = ''get_lha_rate'',
     properties = [(''postcode'', ''string'')],
     required = [''postcode'']\<rparr>,
    \<lparr>tool_name = ''get_sourced_properties'',
     properties = [(''postcode'', ''string'')],
     required = [''postcode'']\<rparr>,
    \<lparr>tool_name = ''get_sourced_property'',
     properties = [(''uprn'', ''string'')],
     required = [''uprn'']\<rparr>,
    \<lparr>tool_name = ''development_calculator'',
     properties = [(''postcode'', ''string''), (''build_cost'', ''number''), (''land_cost'', ''number'')],
     required = [''postcode'']\<rparr>,
    \<lparr>tool_name = ''get_development_gdv'',
     properties = [(''postcode'', ''string'')],
     required = [''postcode'']\<rparr>,
    \<lparr>tool_name = ''get_build_cost'',
     properties = [(''postcode'', ''string'')],
     required = [''postcode'']\<rparr>,
    \<lparr>tool_name = ''get_rebuild_cost'',
     properties = [(''postcode'', ''string'')],
     required = [''postcode'']\<rparr>,
    \<lparr>tool_name = ''get_planning_applications'',
     properties = [(''postcode'', ''string'')],
     required = [''postcode'']\<rparr>,
    \<lparr>tool_name = ''get_conservation_area'',
     properties = [(''postcode'', ''string'')],
     required = [''postcode'']\<rparr>,
    \<lparr>tool_name = ''get_listed_buildings'',
     properties = [(''postcode'', ''string'')],
     required = [''postcode'']\<rparr>,
    \<lparr>tool_name = ''get_green_belt'',
     properties = [(''postcode'', ''string'')],
     required = [''postcode'']\<rparr>,
    \<lparr>tool_name = ''get_aonb_data'',
     properties = [(''postcode'', ''string'')],
     required = [''postcode'']\<rparr>,
    \<lparr>tool_name = ''get_national_park'',
     properties = [(''postcode'', ''string'')],
     required = [''postcode'']\<rparr>,
    \<lparr>tool_name = ''get_council_tax'',
     properties = [(''postcode'', ''string'')],
     required = [''postcode'']\<rparr>,
    \<lparr>tool_name = ''mortgage_calculator'',
     properties = [(''loan_amount'', ''number''), (''deposit'', ''number''), (''interest_rate'', ''number''), (''term_years'', ''integer'')],
     required = [''loan_amount'', ''deposit'', ''interest_rate'', ''term_years'']\<rparr>,
    \<lparr>tool_name = ''get_mortgage_rates'',
     properties = [(''postcode'', ''string'')],
     required = [''postcode'']\<rparr>,
    \<lparr>tool_name = ''stamp_duty_calculator'',
     properties = [(''property_value'', ''number''), (''first_time_buyer'', ''boolean'')],
     required = [''property_value'']\<rparr>,
    \<lparr>tool_name = ''get_floor_areas'',
     properties = [(''postcode'', ''string'')],
     required = [''postcode'']\<rparr>,
    \<lparr>tool_name = ''get_freeholds'',
     properties = [(''postcode'', ''string'')],
     required = [''postcode'']\<rparr>,
    \<lparr>tool_name = ''get_energy_efficiency'',
     properties = [(''postcode'', ''string'')],
     required = [''postcode'']\<rparr>,
    \<lparr>tool_name = ''get_flood_risk'',
     properties = [(''postcode'', ''string'')],
     required = [''postcode'']\<rparr>,
    \<lparr>tool_name = ''get_crime_data'',
     properties = [(''postcode'', ''string'')],
     required = [''postcode'']\<rparr>,
    \<lparr>tool_name = ''get_schools_data'',
     properties = [(''postcode'', ''string'')],
     required = [''postcode'']\<rparr>,
    \<lparr>tool_name = ''get_ptal_data'',
     properties = [(''postcode'', ''string'')],
     required = [''postcode'']\<rparr>,
    \<lparr>tool_name = ''get_restaurants'',
     properties = [(''postcode'', ''string'')],
     required = [''postcode'']\<rparr>,
    \<lparr>tool_name = ''get_internet_speed'',
     properties = [(''postcode'', ''string'')],
     required = [''postcode'']\<rparr>,
    \<lparr>tool_name = ''get_national_hmo_register'',
     properties = [(''postcode'', ''string'')],
     required = [''postcode'']\<rparr>,
    \<lparr>tool_name = ''get_land_registry_documents'',
     properties = [(''postcode'', ''string'')],
     required = [''postcode'']\<rparr>,
    \<lparr>tool_name = ''get_site_plan_documents'',
     properties = [(''postcode'', ''string'')],
     required = [''postcode'']\<rparr>,
    \<lparr>tool_name = ''get_account_credits'',
     properties = [],
     required = []\<rparr>,
    \<lparr>tool_name = ''get_account_documents'',
     properties = [],
     required = []\<rparr>
  ]"


subsection \<open>The handler table\<close>

text \<open>
  Every entry of \<open>toolHandlers\<close> is a closure
  \<open>(args) => propertydataCall(path, { k: args.k, ... })\<close>: the entry is written as its
  path and the keys it reads, in the order of the object literal.
\<close>

definition toolHandlers :: "(string \<times> string \<times> string list) list" where
  "toolHandlers = [
    (''address_match_uprn'', ''/address-match-uprn'', [''address'']),
    (''get_uprn_data'', ''/uprn'', [''uprn'']),
    (''get_uprns'', ''/uprns'', [''postcode'']),
    (''get_uprn_title'', ''/uprn-title'', [''uprn'']),
    (''get_title_data'', ''/title'', [''postcode'']),
    (''get_title_use_class'', ''/title-use-class'', [''postcode'']),
    (''get_estate_agents'', ''/agents'', [''postcode'']),
    (''analyse_buildings'', ''/analyse-buildings'', [''postcode'']),
    (''get_area_type'', ''/area-type'', [''postcode'']),
    (''get_postcode_key_stats'', ''/postcode-key-stats'', [''postcode'']),
    (''get_demographics'', ''/demographics'', [''postcode'']),
    (''get_population_data'', ''/population'', [''postcode'']),
    (''get_household_income'', ''/household-income'', [''postcode'']),
    (''get_politics_data'', ''/politics'', [''postcode'']),
    (''get_prices'', ''/prices'', [''postcode'']),
    (''get_prices_per_sqf'', ''/prices-per-sqf'', [''postcode'']),
    (''get_sold_prices'', ''/sold-prices'', [''postcode'']),
    (''get_sold_prices_per_sqf'', ''/sold-prices-per-sqf'', [''postcode'']),
    (''get_valuation_sale'', ''/valuation-sale'', [''postcode'', ''address'']),
    (''get_valuation_rent'', ''/valuation-rent'', [''postcode'', ''address'']),
    (''get_valuation_hmo'', ''/valuation-hmo'', [''postcode'', ''address'']),
    (''get_valuation_historical'', ''/valuation-historical'', [''postcode'', ''address'']),
    (''get_growth_data'', ''/growth'', [''postcode'']),
    (''get_growth_psf'', ''/growth-psf'', [''postcode'']),
    (''get_rental_demand'', ''/demand'', [''postcode'']),
    (''get_rental_demand_rent'', ''/demand-rent'', [''postcode'']),
    (''get_rents'', ''/rents'', [''postcode'']),
    (''get_rents_hmo'', ''/rents-hmo'', [''postcode'']),
    (''get_yields'', ''/yields'', [''postcode'']),
    (''get_lha_rate'', ''/lha-rate'', [''postcode'']),
    (''get_sourced_properties'', ''/sourced-properties'', [''postcode'']),
    (''get_sourced_property'', ''/sourced-property'', [''uprn'']),
    (''development_calculator'', ''/development-calculator'', [''postcode'', ''build_cost'', ''land_cost'']),
    (''get_development_gdv'', ''/development-gdv'', [''postcode'']),
    (''get_build_cost'', ''/build-cost'', [''postcode'']),
    (''get_rebuild_cost'', ''/rebuild-cost'', [''postcode'']),
    (''get_planning_applications'', ''/planning-applications'', [''postcode'']),
    (''get_conservation_area'', ''/conservation-area'', [''postcode'']),
    (''get_listed_buildings'', ''/listed-buildings'', [''postcode'']),
    (''get_green_belt'', ''/green-belt'', [''postcode'']),
    (''get_aonb_data'', ''/aonb'', [''postcode'']),
    (''get_national_park'', ''/national-park'', [''postcode'']),
    (''get_council_tax'', ''/council-tax'', [''postcode'']),
    (''mortgage_calculator'', ''/mortgage-calculator'', [''loan_amount'', ''deposit'', ''interest_rate'', ''term_years'']),
    (''get_mortgage_rates'', ''/mortgage-rates'', [''postcode'']),
    (''stamp_duty_calculator'', ''/stamp-duty-calculator'', [''property_value'', ''first_time_buyer'']),
    (''get_floor_areas'', ''/floor-areas'', [''postcode'']),
    (''get_freeholds'', ''/freeholds'', [''postcode'']),
    (''get_energy_efficiency'', ''/energy-efficiency'', [''postcode'']),
    (''get_flood_risk'', ''/flood-risk'', [''postcode'']),
    (''get_crime_data'', ''/crime'', [''postcode'']),
    (''get_schools_data'', ''/schools'', [''postcode'']),
    (''get_ptal_data'', ''/ptal'', [''postcode'']),
    (''get_restaurants'', ''/restaurants'', [''postcode'']),
    (''get_internet_speed'', ''/internet-speed'', [''postcode'']),
    (''get_national_hmo_register'', ''/national-hmo-register'', [''postcode'']),
    (''get_land_registry_documents'', ''/land-registry-documents'', [''postcode'']),
    (''get_site_plan_documents'', ''/site-plan-documents'', [''postcode'']),
    (''get_account_credits'', ''/account/credits'', []),
    (''get_account_documents'', ''/account/documents'', [])
  ]"

text \<open>The read \<open>args.k\<close> of a key of an argument object.\<close>

definition get_prop :: "(string \<times> 'n json) list \<Rightarrow> string \<Rightarrow> 'n json option" where
  "get_prop args k = map_of args k"

definition bound_params ::
  "string list \<Rightarrow> (string \<times> 'n json) list \<Rightarrow> (string \<times> 'n json option) list"
where
  "bound_params keys args = map (\<lambda>k. (k, get_prop args k)) keys"

text \<open>
  \<open>toolHandlers\<close> is an object literal, so the read \<open>toolHandlers[name]\<close> that finds no
  own property goes on to \<open>Object.prototype\<close>, whose properties are these.
\<close>

definition Object_prototype :: "string list" where
  "Object_prototype =
     [''constructor'', ''__defineGetter__'', ''__defineSetter__'', ''hasOwnProperty'',
      ''__lookupGetter__'', ''__lookupSetter__'', ''isPrototypeOf'',
      ''propertyIsEnumerable'', ''toString'', ''valueOf'', ''__proto__'',
      ''toLocaleString'']"

datatype handler = Bound string "string list" | Inherited string

definition toolHandlers_get :: "string \<Rightarrow> handler option" where
  "toolHandlers_get name =
     (case map_of toolHandlers name of
        Some (path, keys) \<Rightarrow> Some (Bound path keys)
      | None \<Rightarrow> if name \<in> set Object_prototype then Some (Inherited name) else None)"

text \<open>
  A property of \<open>Object.prototype\<close> called as \<open>handler(args)\<close>, with no receiver.
  \<open>Object(args)\<close> returns its argument; \<open>toString\<close> answers for \<open>undefined\<close>; the value
  of \<open>__proto__\<close> is an object and not callable; \<open>hasOwnProperty\<close> and
  \<open>propertyIsEnumerable\<close> convert their argument to a property key first; the others
  fail on the missing receiver.
\<close>

definition call_inherited ::
  "('n \<Rightarrow> string) \<Rightarrow> string \<Rightarrow> (string \<times> 'n json) list \<Rightarrow> jsexn + 'n json"
where
  "call_inherited ns member args =
     (if member = ''constructor'' then Inr (JObj args)
      else if member = ''toString'' then Inr (JStr ''[object Undefined]'')
      else if member = ''__proto__'' then Inl (TypeError ''handler is not a function'')
      else if member = ''toLocaleString'' then
        Inl (TypeError ''Object.prototype.toLocaleString called on null or undefined'')
      else if member = ''hasOwnProperty'' \<or> member = ''propertyIsEnumerable'' then
        (case String_js ns (JObj args) of Inl e \<Rightarrow> Inl e | Inr _ \<Rightarrow> Inl not_object)
      else Inl not_object)"

definition call_handler ::
  "'n world \<Rightarrow> handler \<Rightarrow> (string \<times> 'n json) list \<Rightarrow> (jsexn + 'n json) \<times> string list"
where
  "call_handler w h args =
     (case h of
        Bound path keys \<Rightarrow> propertydataCall w path (bound_params keys args)
      | Inherited member \<Rightarrow> (call_inherited (Number_toString w) member args, []))"

subsection \<open>The handler of \<open>CallToolRequestSchema\<close>\<close>

record content_part =
  part_type :: string
  part_text :: string

text \<open>The envelope; \<open>isError = None\<close> is the envelope without the key.\<close>

record envelope =
  content :: "content_part list"
  isError :: "bool option"

text \<open>The handler throws (the request fails) or returns an envelope.\<close>

datatype outcome = Throws jsexn | Returns envelope

text \<open>
  The handler on \<open>request.params\<close>: \<open>name\<close>, and \<open>arguments\<close>, which the protocol
  allows to be absent (\<open>None\<close>). The second component is the list of the URLs that
  \<open>fetch\<close> was called on, in order.
\<close>

text \<open>\<open>args || {}\<close>: an argument object is truthy, \<open>undefined\<close> is not.\<close>

definition or_empty :: "(string \<times> 'n json) list option \<Rightarrow> (string \<times> 'n json) list" where
  "or_empty args = (case args of None \<Rightarrow> [] | Some a \<Rightarrow> a)"

definition CallTool ::
  "'n world \<Rightarrow> string \<Rightarrow> (string \<times> 'n json) list option \<Rightarrow> outcome \<times> string list"
where
  "CallTool w name args =
     (case toolHandlers_get name of
        None \<Rightarrow> (Throws (JsError ''Error'' (''Unknown tool: '' @ name)), [])
      | Some handler \<Rightarrow>
          (case call_handler w handler (or_empty args) of
             (Inr result, requests) \<Rightarrow>
               (Returns
                  \<lparr>content =
                     [\<lparr>part_type = ''text'',
                       part_text = JSON_stringify (Number_toString w) result\<rparr>],
                   isError = None\<rparr>,
                requests)
           | (Inl error, requests) \<Rightarrow>
               (Returns
                  \<lparr>content =
                     [\<lparr>part_type = ''text'',
                       part_text = ''Error: '' @ exn_toString error\<rparr>],
                   isError = Some True\<rparr>,
                requests)))"

subsection \<open>Example worlds\<close>

text \<open>
  Concrete worlds for the examples below: numbers are integers, rendered in decimal;
  the credential is \<open>K\<close>; the network answers every request alike.
\<close>

definition int_toString :: "int \<Rightarrow> string" where
  "int_toString i = (if i < 0 then ''-'' @ decimal (nat (- i)) else decimal (nat i))"

definition example_world :: "int settled \<Rightarrow> int world" where
  "example_world answer =
     \<lparr>API_KEY = ''K'', Number_toString = int_toString, fetch = (\<lambda>url. answer)\<rparr>"

definition dq :: "string \<Rightarrow> string" where
  "dq s = [CHR 0x22] @ s @ [CHR 0x22]"

definition nl :: string where
  "nl = [CHR 0x0A]"

definition prices_json :: "int json" where
  "prices_json = JObj [(''prices'', JObj [(''average'', JNum 500000)])]"

definition response_prices :: "int response" where
  "response_prices =
     \<lparr>status = 200,
      body_text = Inr (JSON_stringify int_toString prices_json),
      body_json = Inr prices_json\<rparr>"

definition response_404 :: "int response" where
  "response_404 =
     \<lparr>status = 404,
      body_text = Inr ''not found'',
      body_json = Inl (JsError ''SyntaxError'' ''Unexpected token o in JSON at position 1'')\<rparr>"

definition response_malformed :: "int response" where
  "response_malformed =
     \<lparr>status = 200,
      body_text = Inr ''<html>'',
      body_json = Inl (JsError ''SyntaxError'' ''Unexpected token < in JSON at position 0'')\<rparr>"

definition network_down :: jsexn where
  "network_down = JsError ''FetchError'' ''getaddrinfo ENOTFOUND api.propertydata.co.uk''"

section \<open>Properties\<close>

subsection \<open>Auxiliary facts\<close>

lemmas eval_defs =
  bound_params_def get_prop_def or_empty_def example_world_def request_url_def BASE_URL_def
  urlencoded_def urlencoded_byte_def urlencoded_keeps_def hex_digit_def fetch_result_def
  ok_def error_object_def decimal.simps int_toString_def JSON_stringify_def
  QuoteJSONString_def quote_char_def exn_toString_def nl_def dq_def
  response_prices_def response_404_def response_malformed_def network_down_def
  prices_json_def not_primitive_def not_object_def TypeError_def

lemma toolHandlers_get_registered:
  "map_of toolHandlers name = Some (path, keys) \<Longrightarrow>
   toolHandlers_get name = Some (Bound path keys)"
  by (simp add: toolHandlers_get_def)

text \<open>
  A call of a registered tool: either \<open>String\<close> throws while the query is built, no
  request is made and the handler's \<open>catch\<close> answers; or one request is made and its
  outcome, turned into a value by \<open>propertydataCall\<close>, is wrapped.
\<close>

lemma CallTool_registered:
  assumes "map_of toolHandlers name = Some (path, keys)"
  shows "CallTool w name args =
     (case append_params (Number_toString w) (bound_params keys (or_empty args)) of
        Inl e \<Rightarrow>
          (Returns
             \<lparr>content = [\<lparr>part_type = ''text'', part_text = ''Error: '' @ exn_toString e\<rparr>],
              isError = Some True\<rparr>,
           [])
      | Inr ps \<Rightarrow>
          (Returns
             \<lparr>content =
                [\<lparr>part_type = ''text'',
                  part_text =
                    JSON_stringify (Number_toString w)
                      (fetch_result (fetch w (request_url w path ps)))\<rparr>],
              isError = None\<rparr>,
           [request_url w path ps]))"
  using assms
  by (simp add: CallTool_def toolHandlers_get_registered call_handler_def propertydataCall_def
      Let_def split: sum.splits)

lemma append_params_mem:
  "append_params ns params = Inr ps \<Longrightarrow>
   (k, s) \<in> set ps \<longleftrightarrow>
     (\<exists>v. (k, Some v) \<in> set params \<and> v \<noteq> JNull \<and> String_js ns v = Inr s)"
proof (induction params arbitrary: ps)
  case Nil
  then show ?case by simp
next
  case (Cons entry rest)
  show ?case
  proof (cases "snd entry")
    case None
    with Cons show ?thesis by (cases entry) auto
  next
    case (Some v)
    show ?thesis
    proof (cases "v = JNull")
      case True
      with Some Cons show ?thesis by (cases entry) auto
    next
      case False
      with Some Cons.prems obtain s' ps' where
        s': "String_js ns v = Inr s'" and ps': "append_params ns rest = Inr ps'"
        and ps: "ps = (fst entry, s') # ps'"
        by (cases v) (auto split: sum.splits)
      from Cons.IH[OF ps'] Some False s' ps show ?thesis
        by (cases entry) auto
    qed
  qed
qed

lemma append_params_converts:
  "append_params ns params = Inr ps \<Longrightarrow> (k, Some v) \<in> set params \<Longrightarrow> v \<noteq> JNull \<Longrightarrow>
   \<exists>s. String_js ns v = Inr s"
proof (induction params arbitrary: ps)
  case Nil
  then show ?case by simp
next
  case (Cons entry rest)
  show ?case
  proof (cases "(k, Some v) = entry")
    case True
    with Cons.prems show ?thesis
      by (cases v) (auto simp del: String_js.simps split: sum.splits)
  next
    case False
    with Cons.prems have mem: "(k, Some v) \<in> set rest" by auto
    from Cons.prems(1) obtain ps' where "append_params ns rest = Inr ps'"
      by (auto split: option.splits json.splits sum.splits)
    from Cons.IH[OF this mem Cons.prems(3)] show ?thesis .
  qed
qed

lemma bound_params_mem:
  "(k, x) \<in> set (bound_params keys args) \<longleftrightarrow> k \<in> set keys \<and> x = get_prop args k"
  by (auto simp: bound_params_def)

lemma bound_params_agree:
  "\<forall>k\<in>set keys. get_prop a k = get_prop b k \<Longrightarrow> bound_params keys a = bound_params keys b"
  by (simp add: bound_params_def)

text \<open>
  The two tables list the same names in the same order, and every handler reads the
  keys that its descriptor declares.
\<close>

lemma names_agree: "map tool_name tools = map fst toolHandlers"
  by (simp add: tools_def toolHandlers_def)

lemma keys_agree:
  "map (\<lambda>t. map fst (properties t)) tools = map (\<lambda>h. snd (snd h)) toolHandlers"
  by (simp add: tools_def toolHandlers_def)

lemma handlers_distinct: "distinct (map fst toolHandlers)"
  by (simp add: toolHandlers_def)

text \<open>
  So every descriptor of the catalog has a handler, and the keys that the handler
  reads are the keys that the descriptor declares in \<open>inputSchema.properties\<close>.
\<close>

lemma descriptor_handler:
  assumes "t \<in> set tools"
  shows "\<exists>path. map_of toolHandlers (tool_name t) = Some (path, map fst (properties t))"
proof -
  from assms obtain i where i: "i < length tools" and t: "tools ! i = t"
    by (auto simp: in_set_conv_nth)
  from names_agree have len: "length tools = length toolHandlers"
    by (rule map_eq_imp_length_eq)
  from names_agree i t len have n: "fst (toolHandlers ! i) = tool_name t"
    by (metis nth_map)
  from keys_agree i t len have k: "snd (snd (toolHandlers ! i)) = map fst (properties t)"
    by (metis nth_map)
  from i len have "toolHandlers ! i \<in> set toolHandlers"
    by simp
  with n k have
    "(tool_name t, fst (snd (toolHandlers ! i)), map fst (properties t)) \<in> set toolHandlers"
    by (metis prod.collapse)
  with handlers_distinct have
    "map_of toolHandlers (tool_name t) =
       Some (fst (snd (toolHandlers ! i)), map fst (properties t))"
    by (rule map_of_is_SomeI)
  then show ?thesis by blast
qed

lemma get_prices_registered:
  "map_of toolHandlers ''get_prices'' = Some (''/prices'', [''postcode''])"
  by (simp add: toolHandlers_def)

lemma stamp_duty_registered:
  "map_of toolHandlers ''stamp_duty_calculator'' =
     Some (''/stamp-duty-calculator'', [''property_value'', ''first_time_buyer''])"
  by (simp add: toolHandlers_def)

lemma SW1A_params:
  "append_params (Number_toString w)
     (bound_params [''postcode''] (or_empty (Some [(''postcode'', JStr ''SW1A 1AA'')]))) =
   Inr [(''postcode'', ''SW1A 1AA'')]"
  by (simp add: bound_params_def get_prop_def or_empty_def)

lemma SW1A_url:
  "request_url (example_world answer) ''/prices'' [(''postcode'', ''SW1A 1AA'')] =
   ''https://api.propertydata.co.uk/prices?key=K&postcode=SW1A+1AA''"
  by (simp add: eval_defs)

subsection \<open>C1: a 2xx response with a JSON body\<close>

text \<open>
  Claim C1. For a registered tool and any arguments: when the outbound call (the
  request for the URL built from the arguments) is answered by a response with a 2xx
  status whose body parses to the JSON value \<open>v\<close>, \<open>CallTool\<close> returns the envelope
  with exactly one part, of type \<open>text\<close>, whose text is \<open>JSON.stringify(v, null, 2)\<close>
  of that same \<open>v\<close>, and without the key \<open>isError\<close>.
\<close>

theorem C1_success_envelope:
  assumes "map_of toolHandlers name = Some (path, keys)"
    and "append_params (Number_toString w) (bound_params keys (or_empty args)) = Inr ps"
    and "fetch w (request_url w path ps) = Resolved r"
    and "ok r"
    and "body_json r = Inr v"
  shows "CallTool w name args =
     (Returns
        \<lparr>content =
           [\<lparr>part_type = ''text'', part_text = JSON_stringify (Number_toString w) v\<rparr>],
         isError = None\<rparr>,
      [request_url w path ps])"
  using assms by (simp add: CallTool_registered fetch_result_def)

theorem C1_success_envelope_witness:
  "map_of toolHandlers ''get_prices'' = Some (''/prices'', [''postcode'']) \<and>
   ok response_prices \<and>
   body_json response_prices = Inr prices_json \<and>
   CallTool (example_world (Resolved response_prices)) ''get_prices''
       (Some [(''postcode'', JStr ''SW1A 1AA'')]) =
     (Returns
        \<lparr>content =
           [\<lparr>part_type = ''text'',
             part_text =
               ''{'' @ nl @ ''  '' @ dq ''prices'' @ '': {'' @ nl @
               ''    '' @ dq ''average'' @ '': 500000'' @ nl @ ''  }'' @ nl @ ''}''\<rparr>],
         isError = None\<rparr>,
      [''https://api.propertydata.co.uk/prices?key=K&postcode=SW1A+1AA''])"
proof -
  let ?w = "example_world (Resolved response_prices)"
  have f: "fetch ?w (request_url ?w ''/prices'' [(''postcode'', ''SW1A 1AA'')]) =
      Resolved response_prices"
    by (simp add: example_world_def)
  have ok: "ok response_prices"
    by (simp add: ok_def response_prices_def)
  have j: "body_json response_prices = Inr prices_json"
    by (simp add: response_prices_def)
  from C1_success_envelope[OF get_prices_registered SW1A_params f ok j]
  show ?thesis
    by (simp add: get_prices_registered ok j SW1A_url) (simp add: eval_defs)
qed

subsection \<open>C2: a response with another status\<close>

text \<open>
  Claim C2. For a registered tool: when the outbound call is answered with a status
  \<open>s\<close> outside 200 to 299 and the body text \<open>b\<close>, \<open>CallTool\<close> returns a normal envelope
  (no \<open>isError\<close>) whose single text part is \<open>JSON.stringify\<close> of the object
  \<open>{error: "API Error " + s + ": " + b}\<close>. The witness is the case of the status 404
  with the body \<open>not found\<close>.
\<close>

theorem C2_api_error_envelope:
  assumes "map_of toolHandlers name = Some (path, keys)"
    and "append_params (Number_toString w) (bound_params keys (or_empty args)) = Inr ps"
    and "fetch w (request_url w path ps) = Resolved r"
    and "\<not> ok r"
    and "body_text r = Inr b"
  shows "CallTool w name args =
     (Returns
        \<lparr>content =
           [\<lparr>part_type = ''text'',
             part_text =
               JSON_stringify (Number_toString w)
                 (JObj [(''error'', JStr (''API Error '' @ decimal (status r) @ '': '' @ b))])\<rparr>],
         isError = None\<rparr>,
      [request_url w path ps])"
  using assms by (simp add: CallTool_registered fetch_result_def error_object_def)

theorem C2_api_error_envelope_witness:
  "\<not> ok response_404 \<and>
   status response_404 = 404 \<and>
   body_text response_404 = Inr ''not found'' \<and>
   CallTool (example_world (Resolved response_404)) ''get_prices''
       (Some [(''postcode'', JStr ''SW1A 1AA'')]) =
     (Returns
        \<lparr>content =
           [\<lparr>part_type = ''text'',
             part_text =
               ''{'' @ nl @ ''  '' @ dq ''error'' @ '': '' @
               dq ''API Error 404: not found'' @ nl @ ''}''\<rparr>],
         isError = None\<rparr>,
      [''https://api.propertydata.co.uk/prices?key=K&postcode=SW1A+1AA''])"
proof -
  let ?w = "example_world (Resolved response_404)"
  have f: "fetch ?w (request_url ?w ''/prices'' [(''postcode'', ''SW1A 1AA'')]) =
      Resolved response_404"
    by (simp add: example_world_def)
  have nok: "\<not> ok response_404"
    by (simp add: ok_def response_404_def)
  have b: "body_text response_404 = Inr ''not found''"
    by (simp add: response_404_def)
  have s: "status response_404 = 404"
    by (simp add: response_404_def)
  from C2_api_error_envelope[OF get_prices_registered SW1A_params f nok b]
  show ?thesis
    by (simp add: nok b s SW1A_url) (simp add: eval_defs)
qed

subsection \<open>C3: a name that is not in the handler table\<close>

text \<open>
  A name that is neither a key of \<open>toolHandlers\<close> nor a property of
  \<open>Object.prototype\<close> is rejected with \<open>Unknown tool\<close>, and no name outside the table
  leads to a request.
\<close>

lemma CallTool_unknown:
  assumes "map_of toolHandlers name = None" and "name \<notin> set Object_prototype"
  shows "CallTool w name args = (Throws (JsError ''Error'' (''Unknown tool: '' @ name)), [])"
  using assms by (simp add: CallTool_def toolHandlers_get_def)

lemma CallTool_unregistered_no_request:
  assumes "map_of toolHandlers name = None"
  shows "snd (CallTool w name args) = []"
  using assms
  by (simp add: CallTool_def toolHandlers_get_def call_handler_def split: sum.splits)

text \<open>
  Claim C3 says that every name absent from the handler table is rejected with
  \<open>Unknown tool\<close>. The name \<open>toString\<close> is absent from the table, but the read
  \<open>toolHandlers[name]\<close> finds \<open>Object.prototype.toString\<close>, the test \<open>!handler\<close> does
  not fire, and the call returns a normal envelope holding the text
  \<open>"[object Undefined]"\<close>. No request is made.
\<close>

theorem C3_inherited_name_not_rejected:
  "map_of toolHandlers ''toString'' = None \<and>
   CallTool w ''toString'' (Some []) =
     (Returns
        \<lparr>content = [\<lparr>part_type = ''text'', part_text = dq ''[object Undefined]''\<rparr>],
         isError = None\<rparr>,
      [])"
proof -
  have absent: "map_of toolHandlers ''toString'' = None"
    by (simp add: toolHandlers_def)
  have found: "toolHandlers_get ''toString'' = Some (Inherited ''toString'')"
    by (simp add: toolHandlers_get_def absent Object_prototype_def)
  show ?thesis
    by (simp add: absent CallTool_def found call_handler_def call_inherited_def
        JSON_stringify_def QuoteJSONString_def quote_char_def dq_def)
qed

subsection \<open>C4: a 2xx response whose body is not JSON\<close>

text \<open>
  Claim C4, as amended. \<open>response.json()\<close> is awaited inside the \<open>try\<close> block of
  \<open>propertydataCall\<close>, so its rejection is caught there: for a registered tool, a 2xx
  response whose body fails to parse gives the same delivery as a network failure,
  a normal envelope (no \<open>isError\<close>) whose text is the stringified object
  \<open>{error: "Request failed: " + description}\<close>.
\<close>

theorem C4_parse_failure_is_caught:
  assumes "map_of toolHandlers name = Some (path, keys)"
    and "append_params (Number_toString w) (bound_params keys (or_empty args)) = Inr ps"
    and "fetch w (request_url w path ps) = Resolved r"
    and "ok r"
    and "body_json r = Inl e"
  shows "CallTool w name args =
     (Returns
        \<lparr>content =
           [\<lparr>part_type = ''text'',
             part_text =
               JSON_stringify (Number_toString w)
                 (JObj [(''error'', JStr (''Request failed: '' @ exn_toString e))])\<rparr>],
         isError = None\<rparr>,
      [request_url w path ps])"
  using assms by (simp add: CallTool_registered fetch_result_def error_object_def)

theorem C4_parse_failure_is_caught_witness:
  "ok response_malformed \<and>
   body_json response_malformed =
     Inl (JsError ''SyntaxError'' ''Unexpected token < in JSON at position 0'') \<and>
   CallTool (example_world (Resolved response_malformed)) ''get_prices''
       (Some [(''postcode'', JStr ''SW1A 1AA'')]) =
     (Returns
        \<lparr>content =
           [\<lparr>part_type = ''text'',
             part_text =
               ''{'' @ nl @ ''  '' @ dq ''error'' @ '': '' @
               dq ''Request failed: SyntaxError: Unexpected token < in JSON at position 0'' @
               nl @ ''}''\<rparr>],
         isError = None\<rparr>,
      [''https://api.propertydata.co.uk/prices?key=K&postcode=SW1A+1AA''])"
proof -
  let ?w = "example_world (Resolved response_malformed)"
  have f: "fetch ?w (request_url ?w ''/prices'' [(''postcode'', ''SW1A 1AA'')]) =
      Resolved response_malformed"
    by (simp add: example_world_def)
  have ok: "ok response_malformed"
    by (simp add: ok_def response_malformed_def)
  have j: "body_json response_malformed =
      Inl (JsError ''SyntaxError'' ''Unexpected token < in JSON at position 0'')"
    by (simp add: response_malformed_def)
  from C4_parse_failure_is_caught[OF get_prices_registered SW1A_params f ok j]
  show ?thesis
    by (simp add: ok j SW1A_url) (simp add: eval_defs)
qed

text \<open>
  Claim C4 as stated fails: on the 2xx response with the body \<open><html>\<close> the envelope
  is not the error-flagged one with the text \<open>Error: ...\<close>; it has no \<open>isError\<close> and
  carries a \<open>Request failed:\<close> message.
\<close>

theorem C4_counterexample:
  "ok response_malformed \<and>
   fst (CallTool (example_world (Resolved response_malformed)) ''get_prices''
          (Some [(''postcode'', JStr ''SW1A 1AA'')])) \<noteq>
     Returns
       \<lparr>content =
          [\<lparr>part_type = ''text'',
            part_text = ''Error: SyntaxError: Unexpected token < in JSON at position 0''\<rparr>],
        isError = Some True\<rparr> \<and>
   fst (CallTool (example_world (Resolved response_malformed)) ''get_prices''
          (Some [(''postcode'', JStr ''SW1A 1AA'')])) =
     Returns
       \<lparr>content =
          [\<lparr>part_type = ''text'',
            part_text =
              ''{'' @ nl @ ''  '' @ dq ''error'' @ '': '' @
              dq ''Request failed: SyntaxError: Unexpected token < in JSON at position 0'' @
              nl @ ''}''\<rparr>],
        isError = None\<rparr>"
proof -
  have ok: "ok response_malformed"
    by (simp add: ok_def response_malformed_def)
  have run: "fst (CallTool (example_world (Resolved response_malformed)) ''get_prices''
          (Some [(''postcode'', JStr ''SW1A 1AA'')])) =
     Returns
       \<lparr>content =
          [\<lparr>part_type = ''text'',
            part_text =
              ''{'' @ nl @ ''  '' @ dq ''error'' @ '': '' @
              dq ''Request failed: SyntaxError: Unexpected token < in JSON at position 0'' @
              nl @ ''}''\<rparr>],
        isError = None\<rparr>"
    by (simp add: CallTool_registered[OF get_prices_registered] SW1A_params)
       (simp add: eval_defs)
  show ?thesis
    by (simp add: ok run)
qed

subsection \<open>C5: a network failure\<close>

text \<open>
  Claim C5. For a registered tool: when \<open>fetch\<close> rejects with the error \<open>e\<close> (no
  connection, no name resolution, a transport timeout), the rejection is caught and
  turned into the value \<open>{error: "Request failed: " + e}\<close>, where the template
  literal renders \<open>e\<close> by \<open>Error.prototype.toString\<close>; the value is delivered in a
  normal envelope (no \<open>isError\<close>), and the handler returns: it does not throw.
\<close>

theorem C5_network_failure_envelope:
  assumes "map_of toolHandlers name = Some (path, keys)"
    and "append_params (Number_toString w) (bound_params keys (or_empty args)) = Inr ps"
    and "fetch w (request_url w path ps) = Rejected e"
  shows "CallTool w name args =
     (Returns
        \<lparr>content =
           [\<lparr>part_type = ''text'',
             part_text =
               JSON_stringify (Number_toString w)
                 (JObj [(''error'', JStr (''Request failed: '' @ exn_toString e))])\<rparr>],
         isError = None\<rparr>,
      [request_url w path ps])"
  using assms by (simp add: CallTool_registered fetch_result_def error_object_def)

theorem C5_network_failure_envelope_witness:
  "CallTool (example_world (Rejected network_down)) ''get_prices''
       (Some [(''postcode'', JStr ''SW1A 1AA'')]) =
     (Returns
        \<lparr>content =
           [\<lparr>part_type = ''text'',
             part_text =
               ''{'' @ nl @ ''  '' @ dq ''error'' @ '': '' @
               dq ''Request failed: FetchError: getaddrinfo ENOTFOUND api.propertydata.co.uk'' @
               nl @ ''}''\<rparr>],
         isError = None\<rparr>,
      [''https://api.propertydata.co.uk/prices?key=K&postcode=SW1A+1AA''])"
proof -
  let ?w = "example_world (Rejected network_down)"
  have f: "fetch ?w (request_url ?w ''/prices'' [(''postcode'', ''SW1A 1AA'')]) =
      Rejected network_down"
    by (simp add: example_world_def)
  from C5_network_failure_envelope[OF get_prices_registered SW1A_params f]
  show ?thesis
    by (simp add: SW1A_url) (simp add: eval_defs)
qed

subsection \<open>C6: the catalog and the handler table\<close>

text \<open>
  Claim C6. The names of the \<open>tools\<close> array and the keys of \<open>toolHandlers\<close> are in
  bijection: no name occurs twice in either, and the two sets of names are equal, so
  every descriptor has exactly one handler entry and every entry exactly one
  descriptor.
\<close>

theorem C6_catalog_bijection:
  "distinct (map tool_name tools) \<and>
   distinct (map fst toolHandlers) \<and>
   set (map tool_name tools) = set (map fst toolHandlers)"
  using handlers_distinct by (simp only: names_agree simp_thms)

subsection \<open>C7: the outbound request\<close>

text \<open>
  Claim C7, as amended. For a registered tool whose forwarded argument values
  \<open>String\<close> converts, exactly one request is made, for the URL \<open>BASE_URL\<close> + path +
  \<open>?\<close> + query, where the query is the \<open>application/x-www-form-urlencoded\<close>
  serialization of the parameter \<open>key\<close> with the credential followed by the mapped
  arguments. That serialization writes a space as \<open>+\<close>: the witness is \<open>get_prices\<close>
  with the postcode \<open>SW1A 1AA\<close>, which requests
  \<open>{base}/prices?key={credential}&postcode=SW1A+1AA\<close>.
\<close>

theorem C7_one_request:
  assumes "map_of toolHandlers name = Some (path, keys)"
    and "append_params (Number_toString w) (bound_params keys (or_empty args)) = Inr ps"
  shows "snd (CallTool w name args) =
     [BASE_URL @ path @ ''?'' @ searchParams_toString ((''key'', API_KEY w) # ps)]"
  using assms by (simp add: CallTool_registered request_url_def)

theorem C7_one_request_witness:
  "append_params int_toString
     (bound_params [''postcode''] (or_empty (Some [(''postcode'', JStr ''SW1A 1AA'')]))) =
     Inr [(''postcode'', ''SW1A 1AA'')] \<and>
   snd (CallTool (example_world (Resolved response_prices)) ''get_prices''
          (Some [(''postcode'', JStr ''SW1A 1AA'')])) =
     [''https://api.propertydata.co.uk/prices?key=K&postcode=SW1A+1AA'']"
proof -
  let ?w = "example_world (Resolved response_prices)"
  have ps: "append_params int_toString
     (bound_params [''postcode''] (or_empty (Some [(''postcode'', JStr ''SW1A 1AA'')]))) =
     Inr [(''postcode'', ''SW1A 1AA'')]"
    by (rule SW1A_params[where w = ?w, simplified example_world_def, simplified])
  from C7_one_request[OF get_prices_registered SW1A_params, of ?w]
  show ?thesis
    by (simp add: ps) (simp add: eval_defs)
qed

text \<open>
  Claim C7 as stated fails twice. The postcode \<open>SW1A 1AA\<close> is not sent as
  \<open>SW1A%201AA\<close>; and an invocation whose argument \<open>String\<close> cannot convert (an object
  with an own property \<open>toString\<close>) makes no request at all.
\<close>

theorem C7_counterexample:
  "snd (CallTool (example_world (Resolved response_prices)) ''get_prices''
          (Some [(''postcode'', JStr ''SW1A 1AA'')])) \<noteq>
     [''https://api.propertydata.co.uk/prices?key=K&postcode=SW1A%201AA''] \<and>
   snd (CallTool (example_world (Resolved response_prices)) ''get_prices''
          (Some [(''postcode'', JObj [(''toString'', JNum 1)])])) = []"
proof -
  let ?w = "example_world (Resolved response_prices)"
  have one: "snd (CallTool ?w ''get_prices'' (Some [(''postcode'', JStr ''SW1A 1AA'')])) =
      [''https://api.propertydata.co.uk/prices?key=K&postcode=SW1A+1AA'']"
    by (simp add: CallTool_registered[OF get_prices_registered] SW1A_params SW1A_url)
  have none: "snd (CallTool ?w ''get_prices''
      (Some [(''postcode'', JObj [(''toString'', JNum 1)])])) = []"
    by (simp add: CallTool_registered[OF get_prices_registered] bound_params_def
        get_prop_def or_empty_def)
  show ?thesis
    by (simp add: one none)
qed

subsection \<open>C8: what the query holds\<close>

text \<open>
  Claim C8. For a registered tool and any arguments, every request \<open>u\<close> that the
  invocation makes has a query built from a parameter list \<open>ps\<close> (after the credential)
  such that each key the handler reads (they are the declared parameters, by
  \<open>descriptor_handler\<close>) whose value is present and not \<open>null\<close> is in
  \<open>ps\<close> under the same key with the value \<open>String\<close> gives (a string as it is, a number
  by \<open>Number::toString\<close>, a boolean as \<open>true\<close> or \<open>false\<close>), and no key whose value is
  absent (\<open>undefined\<close>) or \<open>null\<close> occurs in \<open>ps\<close>. The witness is
  \<open>stamp_duty_calculator\<close> with \<open>property_value = 500000\<close> and no
  \<open>first_time_buyer\<close>.
\<close>

theorem C8_query_parameters:
  assumes "map_of toolHandlers name = Some (path, keys)"
    and "u \<in> set (snd (CallTool w name args))"
  shows "\<exists>ps. u = BASE_URL @ path @ ''?'' @
                  searchParams_toString ((''key'', API_KEY w) # ps) \<and>
     (\<forall>k v. k \<in> set keys \<and> get_prop (or_empty args) k = Some v \<and> v \<noteq> JNull \<longrightarrow>
        (\<exists>s. String_js (Number_toString w) v = Inr s \<and> (k, s) \<in> set ps)) \<and>
     (\<forall>k. get_prop (or_empty args) k = None \<or> get_prop (or_empty args) k = Some JNull \<longrightarrow>
        k \<notin> fst ` set ps)"
proof (cases "append_params (Number_toString w) (bound_params keys (or_empty args))")
  case (Inl e)
  with assms show ?thesis
    by (simp add: CallTool_registered)
next
  case (Inr ps)
  with assms have u: "u = BASE_URL @ path @ ''?'' @
      searchParams_toString ((''key'', API_KEY w) # ps)"
    by (simp add: CallTool_registered request_url_def)
  have present: "\<exists>s. String_js (Number_toString w) v = Inr s \<and> (k, s) \<in> set ps"
    if "k \<in> set keys" "get_prop (or_empty args) k = Some v" "v \<noteq> JNull" for k v
  proof -
    from that have mem: "(k, Some v) \<in> set (bound_params keys (or_empty args))"
      by (simp add: bound_params_mem)
    from append_params_converts[OF Inr mem that(3)] obtain s
      where s: "String_js (Number_toString w) v = Inr s" ..
    with mem that(3) have "(k, s) \<in> set ps"
      using append_params_mem[OF Inr, of k s] by blast
    with s show ?thesis by blast
  qed
  have omitted: "k \<notin> fst ` set ps"
    if "get_prop (or_empty args) k = None \<or> get_prop (or_empty args) k = Some JNull" for k
  proof
    assume "k \<in> fst ` set ps"
    then obtain s where "(k, s) \<in> set ps" by auto
    with append_params_mem[OF Inr, of k s] obtain v
      where "(k, Some v) \<in> set (bound_params keys (or_empty args))" and "v \<noteq> JNull"
      by blast
    with that show False
      by (auto simp: bound_params_mem)
  qed
  from u present omitted show ?thesis by blast
qed

theorem C8_query_parameters_witness:
  "''https://api.propertydata.co.uk/stamp-duty-calculator?key=K&property_value=500000''
     \<in> set (snd (CallTool (example_world (Resolved response_prices))
                  ''stamp_duty_calculator'' (Some [(''property_value'', JNum 500000)]))) \<and>
   (\<exists>ps. ''https://api.propertydata.co.uk/stamp-duty-calculator?key=K&property_value=500000'' =
            BASE_URL @ ''/stamp-duty-calculator'' @ ''?'' @
              searchParams_toString ((''key'', ''K'') # ps) \<and>
          (''property_value'', ''500000'') \<in> set ps \<and>
          ''first_time_buyer'' \<notin> fst ` set ps)"
proof -
  let ?w = "example_world (Resolved response_prices)"
  let ?args = "Some [(''property_value'', JNum (500000::int))]"
  let ?u = "''https://api.propertydata.co.uk/stamp-duty-calculator?key=K&property_value=500000''"
  have ps: "append_params (Number_toString ?w)
      (bound_params [''property_value'', ''first_time_buyer''] (or_empty ?args)) =
      Inr [(''property_value'', ''500000'')]"
    by (simp add: eval_defs)
  have mem: "?u \<in> set (snd (CallTool ?w ''stamp_duty_calculator'' ?args))"
    by (simp add: CallTool_registered[OF stamp_duty_registered] ps) (simp add: eval_defs)
  from C8_query_parameters[OF stamp_duty_registered mem] obtain ps where
    u: "?u = BASE_URL @ ''/stamp-duty-calculator'' @ ''?'' @
          searchParams_toString ((''key'', API_KEY ?w) # ps)"
    and present: "\<And>k v. k \<in> set [''property_value'', ''first_time_buyer''] \<Longrightarrow>
          get_prop (or_empty ?args) k = Some v \<Longrightarrow> v \<noteq> JNull \<Longrightarrow>
          \<exists>s. String_js (Number_toString ?w) v = Inr s \<and> (k, s) \<in> set ps"
    and omitted: "\<And>k. get_prop (or_empty ?args) k = None \<Longrightarrow> k \<notin> fst ` set ps"
    by blast
  have key: "API_KEY ?w = ''K''"
    by (simp add: example_world_def)
  have "get_prop (or_empty ?args) ''property_value'' = Some (JNum 500000)"
    by (simp add: get_prop_def or_empty_def)
  from present[OF _ this] have included: "(''property_value'', ''500000'') \<in> set ps"
    by (simp add: eval_defs)
  have "get_prop (or_empty ?args) ''first_time_buyer'' = None"
    by (simp add: get_prop_def or_empty_def)
  from omitted[OF this] have absent: "''first_time_buyer'' \<notin> fst ` set ps" .
  from u key have u': "?u = BASE_URL @ ''/stamp-duty-calculator'' @ ''?'' @
      searchParams_toString ((''key'', ''K'') # ps)"
    by (simp only:)
  have ex: "\<exists>ps. ?u = BASE_URL @ ''/stamp-duty-calculator'' @ ''?'' @
        searchParams_toString ((''key'', ''K'') # ps) \<and>
      (''property_value'', ''500000'') \<in> set ps \<and>
      ''first_time_buyer'' \<notin> fst ` set ps"
    by (rule exI[of _ ps]) (rule conjI[OF u' conjI[OF included absent]])
  show ?thesis
    by (rule conjI[OF mem ex])
qed

subsection \<open>C9: a required key that is missing\<close>

text \<open>
  Claim C9, as amended. The dispatcher does not check \<open>required\<close>. For a tool of the
  catalog and a key \<open>k\<close> of its \<open>required\<close> list that the arguments lack (the other
  forwarded values being convertible): the call is not rejected; one request is made,
  whose parameters do not hold \<open>k\<close>; and the envelope relays what the remote API
  answers. An answer with a status outside 200 to 299 and the body \<open>b\<close> is surfaced as
  the object \<open>{error: "API Error " + status + ": " + b}\<close> in a normal envelope; an
  answer with a 2xx status and the JSON value \<open>v\<close> is returned as \<open>v\<close>, like any
  successful call.
\<close>

theorem C9_missing_required_key_is_forwarded:
  assumes "t \<in> set tools"
    and "k \<in> set (required t)"
    and "get_prop (or_empty args) k = None"
    and "map_of toolHandlers (tool_name t) = Some (path, keys)"
    and "append_params (Number_toString w) (bound_params keys (or_empty args)) = Inr ps"
  shows "k \<notin> fst ` set ps \<and>
     snd (CallTool w (tool_name t) args) = [request_url w path ps] \<and>
     (\<forall>r b. fetch w (request_url w path ps) = Resolved r \<and> \<not> ok r \<and> body_text r = Inr b \<longrightarrow>
        fst (CallTool w (tool_name t) args) =
          Returns
            \<lparr>content =
               [\<lparr>part_type = ''text'',
                 part_text =
                   JSON_stringify (Number_toString w)
                     (JObj [(''error'',
                             JStr (''API Error '' @ decimal (status r) @ '': '' @ b))])\<rparr>],
             isError = None\<rparr>) \<and>
     (\<forall>r v. fetch w (request_url w path ps) = Resolved r \<and> ok r \<and> body_json r = Inr v \<longrightarrow>
        fst (CallTool w (tool_name t) args) =
          Returns
            \<lparr>content =
               [\<lparr>part_type = ''text'', part_text = JSON_stringify (Number_toString w) v\<rparr>],
             isError = None\<rparr>)"
proof -
  have omitted: "k \<notin> fst ` set ps"
  proof
    assume "k \<in> fst ` set ps"
    then obtain s where "(k, s) \<in> set ps" by auto
    with append_params_mem[OF assms(5), of k s] obtain v
      where "(k, Some v) \<in> set (bound_params keys (or_empty args))"
      by blast
    with assms(3) show False
      by (simp add: bound_params_mem)
  qed
  have run: "CallTool w (tool_name t) args =
     (Returns
        \<lparr>content =
           [\<lparr>part_type = ''text'',
             part_text =
               JSON_stringify (Number_toString w)
                 (fetch_result (fetch w (request_url w path ps)))\<rparr>],
         isError = None\<rparr>,
      [request_url w path ps])"
    using assms(4,5) by (simp add: CallTool_registered)
  show ?thesis
    by (simp add: omitted run fetch_result_def error_object_def)
qed

theorem C9_missing_required_key_is_forwarded_witness:
  "\<lparr>tool_name = ''get_prices'', properties = [(''postcode'', ''string'')],
     required = [''postcode'']\<rparr> \<in> set tools \<and>
   get_prop (or_empty (Some [(''town'', JStr ''London'' :: int json)])) ''postcode'' = None \<and>
   \<not> ok response_404 \<and>
   CallTool (example_world (Resolved response_404)) ''get_prices''
       (Some [(''town'', JStr ''London'')]) =
     (Returns
        \<lparr>content =
           [\<lparr>part_type = ''text'',
             part_text =
               ''{'' @ nl @ ''  '' @ dq ''error'' @ '': '' @
               dq ''API Error 404: not found'' @ nl @ ''}''\<rparr>],
         isError = None\<rparr>,
      [''https://api.propertydata.co.uk/prices?key=K''])"
proof -
  let ?t = "\<lparr>tool_name = ''get_prices'', properties = [(''postcode'', ''string'')],
     required = [''postcode'']\<rparr>"
  let ?w = "example_world (Resolved response_404)"
  let ?args = "Some [(''town'', JStr ''London'' :: int json)]"
  have t: "?t \<in> set tools"
    by (simp add: tools_def)
  have k: "''postcode'' \<in> set (required ?t)"
    by simp
  have missing: "get_prop (or_empty ?args) ''postcode'' = None"
    by (simp add: get_prop_def or_empty_def)
  have reg: "map_of toolHandlers (tool_name ?t) = Some (''/prices'', [''postcode''])"
    by (simp add: get_prices_registered)
  have ps: "append_params (Number_toString ?w) (bound_params [''postcode''] (or_empty ?args)) =
      Inr []"
    by (simp add: bound_params_def get_prop_def or_empty_def)
  have url: "request_url ?w ''/prices'' [] = ''https://api.propertydata.co.uk/prices?key=K''"
    by (simp add: eval_defs)
  have f: "fetch ?w (request_url ?w ''/prices'' []) = Resolved response_404"
    by (simp add: example_world_def)
  have nok: "\<not> ok response_404"
    by (simp add: ok_def response_404_def)
  have b: "body_text response_404 = Inr ''not found''"
    by (simp add: response_404_def)
  from C9_missing_required_key_is_forwarded[OF t k missing reg ps]
  have one: "snd (CallTool ?w (tool_name ?t) ?args) = [request_url ?w ''/prices'' []]"
    and relay: "fst (CallTool ?w (tool_name ?t) ?args) =
      Returns
        \<lparr>content =
           [\<lparr>part_type = ''text'',
             part_text =
               JSON_stringify (Number_toString ?w)
                 (JObj [(''error'',
                         JStr (''API Error '' @ decimal (status response_404) @ '': '' @
                               ''not found''))])\<rparr>],
         isError = None\<rparr>"
    using f nok b by blast+
  have "CallTool ?w ''get_prices'' ?args =
      (fst (CallTool ?w (tool_name ?t) ?args), snd (CallTool ?w (tool_name ?t) ?args))"
    by simp
  also have "\<dots> =
     (Returns
        \<lparr>content =
           [\<lparr>part_type = ''text'',
             part_text =
               ''{'' @ nl @ ''  '' @ dq ''error'' @ '': '' @
               dq ''API Error 404: not found'' @ nl @ ''}''\<rparr>],
         isError = None\<rparr>,
      [''https://api.propertydata.co.uk/prices?key=K''])"
    unfolding one relay url by (simp add: eval_defs)
  finally show ?thesis
    using t missing nok by (simp only: simp_thms)
qed

text \<open>
  Claim C9 as stated fails: \<open>postcode\<close> is required for \<open>get_prices\<close>, and the call
  without it, against a remote that answers 200 with a JSON body, returns the success
  envelope of that body.
\<close>

theorem C9_counterexample:
  "\<lparr>tool_name = ''get_prices'', properties = [(''postcode'', ''string'')],
     required = [''postcode'']\<rparr> \<in> set tools \<and>
   ok response_prices \<and>
   CallTool (example_world (Resolved response_prices)) ''get_prices'' (Some []) =
     (Returns
        \<lparr>content =
           [\<lparr>part_type = ''text'',
             part_text =
               ''{'' @ nl @ ''  '' @ dq ''prices'' @ '': {'' @ nl @
               ''    '' @ dq ''average'' @ '': 500000'' @ nl @ ''  }'' @ nl @ ''}''\<rparr>],
         isError = None\<rparr>,
      [''https://api.propertydata.co.uk/prices?key=K''])"
proof -
  have t: "\<lparr>tool_name = ''get_prices'', properties = [(''postcode'', ''string'')],
     required = [''postcode'']\<rparr> \<in> set tools"
    by (simp add: tools_def)
  have ok: "ok response_prices"
    by (simp add: ok_def response_prices_def)
  have run: "CallTool (example_world (Resolved response_prices)) ''get_prices'' (Some []) =
     (Returns
        \<lparr>content =
           [\<lparr>part_type = ''text'',
             part_text =
               ''{'' @ nl @ ''  '' @ dq ''prices'' @ '': {'' @ nl @
               ''    '' @ dq ''average'' @ '': 500000'' @ nl @ ''  }'' @ nl @ ''}''\<rparr>],
         isError = None\<rparr>,
      [''https://api.propertydata.co.uk/prices?key=K''])"
    by (simp add: CallTool_registered[OF get_prices_registered] bound_params_def or_empty_def)
       (simp add: eval_defs)
  show ?thesis
    by (simp only: t ok run simp_thms)
qed

subsection \<open>C10: keys the handler does not read\<close>

text \<open>
  Claim C10. For a registered tool, two argument objects that agree on the keys its
  handler reads give the same requests, and indeed the same outcome; and every
  parameter of a request, after the credential, is under one of those keys: a key
  the handler does not read is never forwarded.
\<close>

theorem C10_undeclared_keys_dropped:
  assumes "map_of toolHandlers name = Some (path, keys)"
    and "\<forall>k\<in>set keys. get_prop a k = get_prop b k"
  shows "snd (CallTool w name (Some a)) = snd (CallTool w name (Some b)) \<and>
     fst (CallTool w name (Some a)) = fst (CallTool w name (Some b)) \<and>
     (\<forall>u\<in>set (snd (CallTool w name (Some a))).
        \<exists>ps. u = BASE_URL @ path @ ''?'' @
                  searchParams_toString ((''key'', API_KEY w) # ps) \<and>
             fst ` set ps \<subseteq> set keys)"
proof -
  from assms(2) have same: "bound_params keys a = bound_params keys b"
    by (rule bound_params_agree)
  have eq: "CallTool w name (Some a) = CallTool w name (Some b)"
    by (simp add: CallTool_registered[OF assms(1)] or_empty_def same)
  have declared: "\<exists>ps. u = BASE_URL @ path @ ''?'' @
        searchParams_toString ((''key'', API_KEY w) # ps) \<and> fst ` set ps \<subseteq> set keys"
    if u: "u \<in> set (snd (CallTool w name (Some a)))" for u
  proof (cases "append_params (Number_toString w) (bound_params keys (or_empty (Some a)))")
    case (Inl e)
    with u show ?thesis
      by (simp add: CallTool_registered[OF assms(1)])
  next
    case (Inr ps)
    with u have url: "u = BASE_URL @ path @ ''?'' @
        searchParams_toString ((''key'', API_KEY w) # ps)"
      by (simp add: CallTool_registered[OF assms(1)] request_url_def)
    have "fst ` set ps \<subseteq> set keys"
    proof
      fix k assume "k \<in> fst ` set ps"
      then obtain s where "(k, s) \<in> set ps" by auto
      with append_params_mem[OF Inr, of k s] show "k \<in> set keys"
        by (auto simp: bound_params_mem)
    qed
    with url show ?thesis by blast
  qed
  from eq declared show ?thesis by simp
qed

theorem C10_undeclared_keys_dropped_witness:
  "get_prop [(''postcode'', JStr ''SW1A 1AA'' :: int json)] ''postcode'' =
     get_prop [(''postcode'', JStr ''SW1A 1AA''), (''key'', JStr ''other''),
               (''debug'', JBool True)] ''postcode'' \<and>
   snd (CallTool (example_world (Resolved response_prices)) ''get_prices''
          (Some [(''postcode'', JStr ''SW1A 1AA''), (''key'', JStr ''other''),
                 (''debug'', JBool True)])) =
     [''https://api.propertydata.co.uk/prices?key=K&postcode=SW1A+1AA'']"
proof -
  let ?w = "example_world (Resolved response_prices)"
  let ?a = "[(''postcode'', JStr ''SW1A 1AA'' :: int json)]"
  let ?b = "[(''postcode'', JStr ''SW1A 1AA'' :: int json), (''key'', JStr ''other''),
             (''debug'', JBool True)]"
  have agree: "\<forall>k\<in>set [''postcode'']. get_prop ?a k = get_prop ?b k"
    by (simp add: get_prop_def)
  have a: "snd (CallTool ?w ''get_prices'' (Some ?a)) =
      [''https://api.propertydata.co.uk/prices?key=K&postcode=SW1A+1AA'']"
    by (simp add: CallTool_registered[OF get_prices_registered] SW1A_params SW1A_url)
  from C10_undeclared_keys_dropped[OF get_prices_registered agree, of ?w]
  have "snd (CallTool ?w ''get_prices'' (Some ?b)) = snd (CallTool ?w ''get_prices'' (Some ?a))"
    by simp
  with a agree show ?thesis
    by simp
qed

end
